theory Spec2Isabelle
  imports Main
begin

section \<open>Values of the host language\<close>

text \<open>
  The screens are TypeScript. Identifiers, titles and status tags are strings; a string
  is modelled as a \<open>string\<close>, and the three icon glyphs of the built-in catalog, which
  are outside ASCII, as their UTF-8 bytes. An optional or nullable field is an
  \<open>option\<close>, \<open>None\<close> standing for both \<open>null\<close> and \<open>undefined\<close>.

  The operator \<open>a || b\<close> yields \<open>b\<close> when \<open>a\<close> is falsy. For a string the falsy values
  are \<open>undefined\<close>, \<open>null\<close> and the empty string; for a number they are \<open>undefined\<close>,
  \<open>null\<close> and \<open>0\<close>.
\<close>

definition truthy :: "string option \<Rightarrow> bool" where
  "truthy v = (case v of None \<Rightarrow> False | Some s \<Rightarrow> s \<noteq> [])"

definition or_string :: "string option \<Rightarrow> string \<Rightarrow> string" where
  "or_string v d = (case v of None \<Rightarrow> d | Some s \<Rightarrow> if s = [] then d else s)"

definition or_number :: "int option \<Rightarrow> int \<Rightarrow> int" where
  "or_number v d = (case v of None \<Rightarrow> d | Some n \<Rightarrow> if n = 0 then d else n)"

text \<open>
  A backend call is awaited inside \<open>try\<close>. It either resolves to an object
  \<open>{ data, error }\<close>, where \<open>data\<close> may be \<open>null\<close> and a non-null \<open>error\<close> reports a
  failure, or it rejects, which transfers control to the \<open>catch\<close> block.
\<close>

datatype 'a response = Resolved "'a list option" "string option" | Rejected

section \<open>Rows of the data store\<close>

record access_row =
  lesson_id_ar :: string

record request_row =
  lesson_id_rr :: string
  status_rr :: string

record subject_row =
  id_sr :: string
  name_sr :: string
  description_sr :: string
  icon_sr :: string
  color_sr :: string
  image_url_sr :: "string option"

record lesson_row =
  id_lr :: string
  title_lr :: string
  description_lr :: string
  subject_id_lr :: string
  thumbnail_url_lr :: "string option"

record video_row =
  id_vr :: string
  title_vr :: string
  description_vr :: string
  youtube_url_vr :: string
  thumbnail_url_vr :: string
  duration_vr :: string
  lesson_id_vr :: string
  created_at_vr :: string
  position_vr :: "int option"

section \<open>The view model of the lessons screen\<close>

text \<open>
  \<open>LessonVideo\<close> is the object literal built in \<open>loadSubjects\<close>: besides the fields of
  the interface it carries \<open>subjectId\<close> and \<open>position\<close>.
\<close>

record LessonVideo =
  id_video :: string
  title_video :: string
  description_video :: string
  youtube_url :: string
  thumbnail_url :: string
  duration :: string
  lessonId :: string
  subjectId_video :: string
  created_at :: string
  position :: int

record Lesson =
  id_lesson :: string
  title_lesson :: string
  description_lesson :: string
  subjectId :: string
  thumbnailUrl :: "string option"
  videoCount :: nat
  videos :: "LessonVideo list"
  hasAccess :: "bool option"
  requestStatus :: "string option"

text \<open>
  The request statuses, as the interface \<open>Lesson\<close> types \<open>requestStatus\<close>:
  \<open>'none' | 'pending' | 'approved' | 'rejected'\<close>.
\<close>

definition request_statuses :: "string set" where
  "request_statuses = {''none'', ''pending'', ''approved'', ''rejected''}"

record Subject =
  id_subject :: string
  name_subject :: string
  description_subject :: string
  icon :: string
  color :: string
  imageUrl :: "string option"
  lessonCount :: nat
  lessons :: "Lesson list"

datatype toast = Toast_success string | Toast_error string

text \<open>
  The state of the component \<open>LessonsPage\<close>: the signed-in user's identifier
  (\<open>user?.id\<close>), the state variables of the component, the toasts shown so far, and
  the tables of the data store the component has called so far, in the order of the
  calls.
\<close>

record page =
  user :: "string option"
  subjects :: "Subject list"
  userAccess :: "string set"
  userRequests :: "string \<rightharpoonup> string"
  loading :: bool
  showRequestModal :: bool
  requestingLesson :: "Lesson option"
  loadingContainers :: "string set"
  toasts :: "toast list"
  queries :: "string list"

section \<open>The built-in catalog\<close>

definition getDefaultSubjects :: "Subject list" where
  "getDefaultSubjects =
    [\<lparr>id_subject = ''sft'', name_subject = ''SFT'',
      description_subject = ''Science for Technology - Core scientific principles'',
      icon = [CHR 0xF0, CHR 0x9F, CHR 0x94, CHR 0xAC],
      color = ''from-green-500 to-emerald-600'',
      imageUrl = Some ''https://images.pexels.com/photos/2280571/pexels-photo-2280571.jpeg'',
      lessonCount = 0, lessons = []\<rparr>,
     \<lparr>id_subject = ''et'', name_subject = ''ET'',
      description_subject = ''Engineering Technology - Applied engineering concepts'',
      icon = [CHR 0xE2, CHR 0x9A, CHR 0x99, CHR 0xEF, CHR 0xB8, CHR 0x8F],
      color = ''from-orange-500 to-amber-600'',
      imageUrl = Some ''https://images.pexels.com/photos/159298/gears-cogs-machine-machinery-159298.jpeg'',
      lessonCount = 0, lessons = []\<rparr>,
     \<lparr>id_subject = ''ict'', name_subject = ''ICT'',
      description_subject = ''Information & Communication Technology'',
      icon = [CHR 0xF0, CHR 0x9F, CHR 0x92, CHR 0xBB],
      color = ''from-blue-500 to-indigo-600'',
      imageUrl = Some ''https://images.pexels.com/photos/546819/pexels-photo-546819.jpeg'',
      lessonCount = 0, lessons = []\<rparr>]"

text \<open>
  Where the subject query resolves without an error and without data, the built-in
  subjects are read as rows: the fields \<open>id\<close>, \<open>name\<close>, \<open>description\<close>, \<open>icon\<close> and
  \<open>color\<close> are found, \<open>image_url\<close> is not (the built-in subjects call it \<open>imageUrl\<close>).
\<close>

definition read_as_row :: "Subject \<Rightarrow> subject_row" where
  "read_as_row s =
    \<lparr>id_sr = id_subject s, name_sr = name_subject s, description_sr = description_subject s,
     icon_sr = icon s, color_sr = color s, image_url_sr = None\<rparr>"

section \<open>Assembling the catalog\<close>

definition or_empty :: "'a list option \<Rightarrow> 'a list" where
  "or_empty rows = (case rows of None \<Rightarrow> [] | Some xs \<Rightarrow> xs)"

text \<open>
  \<open>lessonVideos\<close>: the videos of one lesson, in the order fetched, each with the
  position \<open>video.position || index\<close>, where \<open>index\<close> counts within the lesson.
\<close>

definition lessonVideos :: "video_row list option \<Rightarrow> subject_row \<Rightarrow> lesson_row \<Rightarrow> LessonVideo list" where
  "lessonVideos videosData subject lesson =
    map (\<lambda>(index, video).
          \<lparr>id_video = id_vr video, title_video = title_vr video,
           description_video = description_vr video, youtube_url = youtube_url_vr video,
           thumbnail_url = thumbnail_url_vr video, duration = duration_vr video,
           lessonId = id_lr lesson, subjectId_video = id_sr subject,
           created_at = created_at_vr video,
           position = or_number (position_vr video) (int index)\<rparr>)
        (enumerate 0 (filter (\<lambda>video. lesson_id_vr video = id_lr lesson) (or_empty videosData)))"

text \<open>
  \<open>Array.prototype.sort\<close> is stable; the comparator is
  \<open>(a.position || 0) - (b.position || 0)\<close>, so the sort is the stable sort on the key
  \<open>position || 0\<close>, ascending.
\<close>

definition sort_videos :: "LessonVideo list \<Rightarrow> LessonVideo list" where
  "sort_videos vs = sort_key (\<lambda>a. or_number (Some (position a)) 0) vs"

definition subjectLessons ::
  "lesson_row list option \<Rightarrow> video_row list option \<Rightarrow> string set \<Rightarrow> (string \<rightharpoonup> string) \<Rightarrow>
   subject_row \<Rightarrow> Lesson list" where
  "subjectLessons lessonsData videosData access requests subject =
    map (\<lambda>lesson.
          \<lparr>id_lesson = id_lr lesson, title_lesson = title_lr lesson,
           description_lesson = description_lr lesson, subjectId = id_sr subject,
           thumbnailUrl = thumbnail_url_lr lesson,
           videoCount = length (lessonVideos videosData subject lesson),
           videos = sort_videos (lessonVideos videosData subject lesson),
           hasAccess = Some (id_lr lesson \<in> access),
           requestStatus = Some (or_string (requests (id_lr lesson)) ''none'')\<rparr>)
        (filter (\<lambda>lesson. subject_id_lr lesson = id_sr subject) (or_empty lessonsData))"

definition organizedSubjects ::
  "subject_row list option \<Rightarrow> lesson_row list option \<Rightarrow> video_row list option \<Rightarrow>
   string set \<Rightarrow> (string \<rightharpoonup> string) \<Rightarrow> Subject list" where
  "organizedSubjects subjectsData lessonsData videosData access requests =
    map (\<lambda>subject.
          \<lparr>id_subject = id_sr subject, name_subject = name_sr subject,
           description_subject = description_sr subject, icon = icon_sr subject,
           color = color_sr subject, imageUrl = image_url_sr subject,
           lessonCount = length (subjectLessons lessonsData videosData access requests subject),
           lessons = subjectLessons lessonsData videosData access requests subject\<rparr>)
        (case subjectsData of None \<Rightarrow> map read_as_row getDefaultSubjects | Some rows \<Rightarrow> rows)"

text \<open>
  \<open>loadSubjects\<close> awaits the three queries in turn, inside one \<open>try\<close>. A subject query
  that reports an error, or any query that rejects, installs the built-in catalog; an
  error reported by the lesson or the video query is only logged. The access set and
  the request map are the ones of the state at the call.
\<close>

definition use_defaults :: "page \<Rightarrow> page" where
  "use_defaults st = st\<lparr>subjects := getDefaultSubjects, loading := False\<rparr>"

definition asked :: "string \<Rightarrow> page \<Rightarrow> page" where
  "asked table st = st\<lparr>queries := queries st @ [table]\<rparr>"

definition loadSubjects ::
  "subject_row response \<Rightarrow> lesson_row response \<Rightarrow> video_row response \<Rightarrow> page \<Rightarrow> page" where
  "loadSubjects subjects_q lessons_q videos_q st =
    (if \<not> truthy (user st) then st
     else
       let st1 = asked ''subjects'' (st\<lparr>loading := True\<rparr>) in
       case subjects_q of
         Rejected \<Rightarrow> use_defaults st1
       | Resolved subjectsData subjectsError \<Rightarrow>
           (case subjectsError of
              Some e \<Rightarrow> use_defaults st1
            | None \<Rightarrow>
                let st2 = asked ''subject_lessons'' st1 in
                (case lessons_q of
                   Rejected \<Rightarrow> use_defaults st2
                 | Resolved lessonsData lessonsError \<Rightarrow>
                     let st3 = asked ''lesson_videos'' st2 in
                     (case videos_q of
                        Rejected \<Rightarrow> use_defaults st3
                      | Resolved videosData videosError \<Rightarrow>
                          st3\<lparr>subjects := organizedSubjects subjectsData lessonsData videosData
                                            (userAccess st) (userRequests st),
                              loading := False\<rparr>))))"

section \<open>The access snapshot\<close>

text \<open>
  \<open>loadUserAccess\<close> and \<open>loadUserRequests\<close> do nothing without a user identifier.
  Otherwise each awaits one query. A response with an error is logged and the function
  returns; a response without one replaces the held set or map; a rejection is caught
  and stores the empty set or map.
\<close>

definition loadUserAccess :: "access_row response \<Rightarrow> page \<Rightarrow> page" where
  "loadUserAccess access_q st =
    (if \<not> truthy (user st) then st
     else
       let st1 = asked ''user_lesson_access'' st in
       case access_q of
         Rejected \<Rightarrow> st1\<lparr>userAccess := {}\<rparr>
       | Resolved accessData error \<Rightarrow>
           (case error of
              Some e \<Rightarrow> st1
            | None \<Rightarrow> st1\<lparr>userAccess := set (map lesson_id_ar (or_empty accessData))\<rparr>))"

text \<open>\<open>new Map(entries)\<close> inserts the entries in order: a later entry replaces an earlier one with the same key.\<close>

definition new_Map :: "('k \<times> 'v) list \<Rightarrow> ('k \<rightharpoonup> 'v)" where
  "new_Map entries = fold (\<lambda>(k, v) m. m(k \<mapsto> v)) entries Map.empty"

definition loadUserRequests :: "request_row response \<Rightarrow> page \<Rightarrow> page" where
  "loadUserRequests requests_q st =
    (if \<not> truthy (user st) then st
     else
       let st1 = asked ''lesson_requests'' st in
       case requests_q of
         Rejected \<Rightarrow> st1\<lparr>userRequests := Map.empty\<rparr>
       | Resolved requestsData error \<Rightarrow>
           (case error of
              Some e \<Rightarrow> st1
            | None \<Rightarrow>
                st1\<lparr>userRequests :=
                      new_Map (map (\<lambda>item. (lesson_id_rr item, status_rr item))
                                   (or_empty requestsData))\<rparr>))"

section \<open>The triggers of a refresh\<close>

text \<open>
  Each trigger starts its loads one after the other without awaiting them. The loads of
  one trigger write different state variables, or the same one twice, so they are
  modelled in the order they are started, each with the response it receives.

  \<open>initial_data_load\<close> is the effect commented \<open>Initial data load\<close>, which runs when
  the user identifier becomes available.
\<close>

definition initial_data_load :: "request_row response \<Rightarrow> request_row response \<Rightarrow> page \<Rightarrow> page" where
  "initial_data_load requests_q1 requests_q2 st =
    (if truthy (user st) then loadUserRequests requests_q2 (loadUserRequests requests_q1 st)
     else st)"

text \<open>\<open>handleLessonAccessUpdate\<close>, after its delay of one second.\<close>

definition handleLessonAccessUpdate ::
  "string \<Rightarrow> access_row response \<Rightarrow> request_row response \<Rightarrow> page \<Rightarrow> page" where
  "handleLessonAccessUpdate userId access_q requests_q st =
    (if Some userId = user st then loadUserRequests requests_q (loadUserAccess access_q st)
     else st)"

definition handleVisibilityChange ::
  "bool \<Rightarrow> string \<Rightarrow> access_row response \<Rightarrow> request_row response \<Rightarrow> page \<Rightarrow> page" where
  "handleVisibilityChange hidden visibilityState access_q requests_q st =
    (if \<not> hidden \<and> truthy (user st) \<and> visibilityState = ''visible''
     then loadUserRequests requests_q (loadUserAccess access_q st)
     else st)"

text \<open>The callback of the 60 second interval.\<close>

definition periodic_refresh ::
  "bool \<Rightarrow> access_row response \<Rightarrow> request_row response \<Rightarrow> page \<Rightarrow> page" where
  "periodic_refresh hidden access_q requests_q st =
    (if \<not> hidden \<and> truthy (user st)
     then loadUserRequests requests_q (loadUserAccess access_q st)
     else st)"

section \<open>Requesting access\<close>

definition handleRequestAccess :: "Lesson \<Rightarrow> page \<Rightarrow> page" where
  "handleRequestAccess lesson st = st\<lparr>requestingLesson := Some lesson, showRequestModal := True\<rparr>"

text \<open>The request form is rendered under \<open>showRequestModal && requestingLesson\<close>.\<close>

definition request_modal_rendered :: "page \<Rightarrow> bool" where
  "request_modal_rendered st = (showRequestModal st \<and> requestingLesson st \<noteq> None)"

text \<open>
  \<open>!lesson.hasAccess && lesson.requestStatus !== 'pending'\<close>, the condition of
  \<open>handleLessonClick\<close>, of the card's click handler and of the rendering of the
  request button.
\<close>

definition requestable :: "Lesson \<Rightarrow> bool" where
  "requestable lesson = (hasAccess lesson \<noteq> Some True \<and> requestStatus lesson \<noteq> Some ''pending'')"

definition handleLessonClick :: "Lesson \<Rightarrow> page \<Rightarrow> page" where
  "handleLessonClick lesson st = (if requestable lesson then handleRequestAccess lesson st else st)"

text \<open>
  \<open>handleContainerClick\<close> marks the container as loading and, 600 ms later, unmarks it
  and runs the action; the model is the state after the timer.
\<close>

definition handleContainerClick :: "string \<Rightarrow> (page \<Rightarrow> page) \<Rightarrow> page \<Rightarrow> page" where
  "handleContainerClick ident action st =
    action (st\<lparr>loadingContainers := (loadingContainers st \<union> {ident}) - {ident}\<rparr>)"

text \<open>A click on the card of a lesson, and a click on its request button, which exists only on a requestable lesson.\<close>

definition lesson_card_onClick :: "Lesson \<Rightarrow> page \<Rightarrow> page" where
  "lesson_card_onClick lesson st =
    (if requestable lesson then handleContainerClick (id_lesson lesson) (handleLessonClick lesson) st
     else st)"

definition request_button_onClick :: "Lesson \<Rightarrow> page \<Rightarrow> page" where
  "request_button_onClick lesson st = (if requestable lesson then handleLessonClick lesson st else st)"

datatype insert_response = Insert_resolved "string option" | Insert_rejected

text \<open>
  \<open>submitLessonRequest\<close> awaits the insert. After a success it shows the success
  toast, stores \<open>pending\<close> for the lesson in the request map, and awaits
  \<open>loadSubjects\<close>. The update calls \<open>prev.set\<close> on the held map itself before copying
  it, so the map that \<open>loadSubjects\<close> reads holds the new entry as well.
\<close>

definition submitLessonRequest ::
  "string \<Rightarrow> insert_response \<Rightarrow> subject_row response \<Rightarrow> lesson_row response \<Rightarrow>
   video_row response \<Rightarrow> page \<Rightarrow> page" where
  "submitLessonRequest message insert_q subjects_q lessons_q videos_q st =
    (case requestingLesson st of
       None \<Rightarrow> st
     | Some lesson \<Rightarrow>
         (if \<not> truthy (user st) then st
          else
            let st1 = asked ''lesson_requests'' st;
                failed = st1\<lparr>toasts := toasts st1 @ [Toast_error ''Failed to submit request'']\<rparr>
            in
            (case insert_q of
               Insert_rejected \<Rightarrow> failed
             | Insert_resolved error \<Rightarrow>
                 (case error of
                    Some e \<Rightarrow> failed
                  | None \<Rightarrow>
                      loadSubjects subjects_q lessons_q videos_q
                        (st1\<lparr>toasts := toasts st1 @ [Toast_success ''Access request submitted successfully!''],
                             userRequests := (userRequests st1)(id_lesson lesson \<mapsto> ''pending'')\<rparr>)))))"

section \<open>The notifications screen\<close>

record notification_data =
  icon_data :: "string option"

record notification =
  id_notification :: string
  userId :: string
  type_notification :: string
  priority :: string
  readStatus :: bool
  title_notification :: string
  message_notification :: string
  createdAt :: string
  data_notification :: "notification_data option"

datatype icon_definition = faCheck | faStar | faExclamationCircle | faInfoCircle | faBell | faCheckCircle

definition userNotifications :: "notification list \<Rightarrow> string option \<Rightarrow> notification list" where
  "userNotifications notifications user_id = filter (\<lambda>n. Some (userId n) = user_id) notifications"

definition unreadNotifications :: "notification list \<Rightarrow> string option \<Rightarrow> notification list" where
  "unreadNotifications notifications user_id =
    filter (\<lambda>n. \<not> readStatus n) (userNotifications notifications user_id)"

text \<open>
  \<open>markNotificationRead\<close> belongs to the data hook, which is outside these screens:
  it is a parameter, any function from a notification identifier to a change of the
  notification collection.
\<close>

definition handleNotificationClick ::
  "(string \<Rightarrow> notification list \<Rightarrow> notification list) \<Rightarrow> notification \<Rightarrow>
   notification list \<Rightarrow> notification list" where
  "handleNotificationClick markNotificationRead n notifications =
    (if \<not> readStatus n then markNotificationRead (id_notification n) notifications
     else notifications)"

definition getNotificationIcon :: "string \<Rightarrow> icon_definition" where
  "getNotificationIcon t =
    (if t = ''quiz_result'' then faCheck
     else if t = ''achievement'' then faStar
     else if t = ''reminder'' then faExclamationCircle
     else if t = ''broadcast'' then faInfoCircle
     else faBell)"

text \<open>\<open>notification.data?.icon\<close>\<close>

definition data_icon :: "notification \<Rightarrow> string option" where
  "data_icon n = (case data_notification n of None \<Rightarrow> None | Some d \<Rightarrow> icon_data d)"

definition getNotificationIconForData :: "notification \<Rightarrow> icon_definition" where
  "getNotificationIconForData n =
    (if type_notification n = ''broadcast'' \<and> data_icon n = Some ''check-circle'' then faCheckCircle
     else getNotificationIcon (type_notification n))"

definition getNotificationColor :: "string \<Rightarrow> string \<Rightarrow> string" where
  "getNotificationColor t p =
    (if p = ''high'' then ''text-red-600 bg-red-100''
     else if p = ''medium'' then ''text-yellow-600 bg-yellow-100''
     else if t = ''quiz_result'' then ''text-green-600 bg-green-100''
     else if t = ''achievement'' then ''text-purple-600 bg-purple-100''
     else if t = ''reminder'' then ''text-orange-600 bg-orange-100''
     else if t = ''broadcast'' then ''text-blue-600 bg-blue-100''
     else ''text-gray-600 bg-gray-100'')"

definition getNotificationColorForData :: "notification \<Rightarrow> string" where
  "getNotificationColorForData n =
    (if type_notification n = ''broadcast'' \<and> data_icon n = Some ''check-circle''
     then ''text-green-600 bg-green-100''
     else getNotificationColor (type_notification n) (priority n))"

section \<open>Sample inputs\<close>

text \<open>
  One subject \<open>s1\<close> with one lesson \<open>l1\<close>, videos of that lesson, and a page of the
  signed-in user \<open>u1\<close> that holds a given access set and request map and nothing else.
\<close>

abbreviation (input) a_subject_row :: subject_row where
  "a_subject_row \<equiv>
    \<lparr>id_sr = ''s1'', name_sr = ''Subject'', description_sr = '''', icon_sr = '''',
     color_sr = '''', image_url_sr = None\<rparr>"

abbreviation (input) a_lesson_row :: lesson_row where
  "a_lesson_row \<equiv>
    \<lparr>id_lr = ''l1'', title_lr = ''Lesson'', description_lr = '''', subject_id_lr = ''s1'',
     thumbnail_url_lr = None\<rparr>"

abbreviation (input) a_video_row :: "string \<Rightarrow> int option \<Rightarrow> video_row" where
  "a_video_row name p \<equiv>
    \<lparr>id_vr = name, title_vr = name, description_vr = '''', youtube_url_vr = '''',
     thumbnail_url_vr = '''', duration_vr = '''', lesson_id_vr = ''l1'', created_at_vr = '''',
     position_vr = p\<rparr>"

abbreviation (input) a_page :: "string set \<Rightarrow> (string \<rightharpoonup> string) \<Rightarrow> page" where
  "a_page access requests \<equiv>
    \<lparr>user = Some ''u1'', subjects = [], userAccess = access, userRequests = requests,
     loading = False, showRequestModal = False, requestingLesson = None,
     loadingContainers = {}, toasts = [], queries = []\<rparr>"

abbreviation (input) a_catalog :: "video_row list \<Rightarrow> page \<Rightarrow> Subject list" where
  "a_catalog vs st \<equiv>
    subjects (loadSubjects (Resolved (Some [a_subject_row]) None)
                (Resolved (Some [a_lesson_row]) None) (Resolved (Some vs) None) st)"

abbreviation (input) a_lesson :: "bool \<Rightarrow> string \<Rightarrow> Lesson" where
  "a_lesson access status \<equiv>
    \<lparr>id_lesson = ''l1'', title_lesson = ''Lesson'', description_lesson = '''', subjectId = ''s1'',
     thumbnailUrl = None, videoCount = 0, videos = [], hasAccess = Some access,
     requestStatus = Some status\<rparr>"

abbreviation (input) a_notification :: "string \<Rightarrow> string \<Rightarrow> string \<Rightarrow> bool \<Rightarrow> notification_data option \<Rightarrow> notification" where
  "a_notification ident t p r d \<equiv>
    \<lparr>id_notification = ident, userId = ''u1'', type_notification = t, priority = p,
     readStatus = r, title_notification = '''', message_notification = '''', createdAt = '''',
     data_notification = d\<rparr>"

lemmas catalog_defs = loadSubjects_def organizedSubjects_def subjectLessons_def lessonVideos_def
  sort_videos_def or_empty_def or_string_def or_number_def truthy_def asked_def use_defaults_def
  Let_def

section \<open>The assembled catalog\<close>

lemma getDefaultSubjects_no_lessons:
  "S \<in> set getDefaultSubjects \<Longrightarrow> lessons S = []"
  by (auto simp: getDefaultSubjects_def)

lemma organizedSubjects_lesson:
  assumes "S \<in> set (organizedSubjects sd ld vd access requests)"
    and "L \<in> set (lessons S)"
  shows "hasAccess L = Some (id_lesson L \<in> access) \<and>
         requestStatus L = Some (or_string (requests (id_lesson L)) ''none'')"
  using assms by (auto simp: organizedSubjects_def subjectLessons_def)

lemma loadSubjects_cases:
  assumes "truthy (user st)"
  shows "subjects (loadSubjects sq lq vq st) = getDefaultSubjects \<or>
         (\<exists>sd ld vd. subjects (loadSubjects sq lq vq st) =
            organizedSubjects sd ld vd (userAccess st) (userRequests st))"
  using assms
  by (auto simp: loadSubjects_def use_defaults_def asked_def Let_def
           split: response.splits option.splits)

lemma loadSubjects_lesson:
  assumes "truthy (user st)"
    and "S \<in> set (subjects (loadSubjects sq lq vq st))"
    and "L \<in> set (lessons S)"
  shows "hasAccess L = Some (id_lesson L \<in> userAccess st) \<and>
         requestStatus L = Some (or_string (userRequests st (id_lesson L)) ''none'')"
proof -
  consider "subjects (loadSubjects sq lq vq st) = getDefaultSubjects"
    | sd ld vd where "subjects (loadSubjects sq lq vq st) =
        organizedSubjects sd ld vd (userAccess st) (userRequests st)"
    using loadSubjects_cases [OF assms(1)] by blast
  then show ?thesis
  proof cases
    case 1
    with assms(2) have "lessons S = []"
      by (simp add: getDefaultSubjects_no_lessons)
    with assms(3) show ?thesis
      by simp
  next
    case 2
    with assms(2) have "S \<in> set (organizedSubjects sd ld vd (userAccess st) (userRequests st))"
      by simp
    from organizedSubjects_lesson [OF this assms(3)] show ?thesis .
  qed
qed

lemma loadSubjects_keeps_snapshot:
  "userAccess (loadSubjects sq lq vq st) = userAccess st \<and>
   userRequests (loadSubjects sq lq vq st) = userRequests st"
  by (auto simp: loadSubjects_def use_defaults_def asked_def Let_def
           split: response.splits option.splits)

text \<open>
  C1. Every lesson of a catalog that \<open>loadSubjects\<close> produces whose identifier is in the
  access set has \<open>hasAccess = true\<close>, whatever the request map holds for it.
\<close>

theorem access_overrides_request_state:
  assumes "truthy (user st)"
    and "S \<in> set (subjects (loadSubjects sq lq vq st))"
    and "L \<in> set (lessons S)"
    and "id_lesson L \<in> userAccess st"
  shows "hasAccess L = Some True"
  using loadSubjects_lesson [OF assms(1-3)] assms(4) by simp

theorem access_overrides_request_state_witness:
  "truthy (user (a_page {''l1''} [''l1'' \<mapsto> ''rejected''])) \<and>
   hd (a_catalog [] (a_page {''l1''} [''l1'' \<mapsto> ''rejected'']))
     \<in> set (a_catalog [] (a_page {''l1''} [''l1'' \<mapsto> ''rejected''])) \<and>
   a_lesson True ''rejected''
     \<in> set (lessons (hd (a_catalog [] (a_page {''l1''} [''l1'' \<mapsto> ''rejected''])))) \<and>
   id_lesson (a_lesson True ''rejected'') \<in> userAccess (a_page {''l1''} [''l1'' \<mapsto> ''rejected'']) \<and>
   userRequests (a_page {''l1''} [''l1'' \<mapsto> ''rejected'']) ''l1'' = Some ''rejected'' \<and>
   hasAccess (a_lesson True ''rejected'') = Some True"
proof -
  have u: "truthy (user (a_page {''l1''} [''l1'' \<mapsto> ''rejected'']))"
    by (simp add: truthy_def)
  have s: "hd (a_catalog [] (a_page {''l1''} [''l1'' \<mapsto> ''rejected'']))
             \<in> set (a_catalog [] (a_page {''l1''} [''l1'' \<mapsto> ''rejected'']))"
    by (simp add: catalog_defs)
  have l: "a_lesson True ''rejected''
             \<in> set (lessons (hd (a_catalog [] (a_page {''l1''} [''l1'' \<mapsto> ''rejected'']))))"
    by (simp add: catalog_defs)
  have a: "id_lesson (a_lesson True ''rejected'')
             \<in> userAccess (a_page {''l1''} [''l1'' \<mapsto> ''rejected''])"
    by simp
  from access_overrides_request_state [OF u s l a] u s l a show ?thesis
    by simp
qed

text \<open>
  C2. Where the request map holds request statuses, every lesson of a catalog that
  \<open>loadSubjects\<close> produces whose identifier is not in the access set has as
  \<open>requestStatus\<close> the value the request map holds for it, and \<open>none\<close> when the map
  has no entry for it.
\<close>

theorem request_status_equals_map_entry:
  assumes "truthy (user st)"
    and "ran (userRequests st) \<subseteq> request_statuses"
    and "S \<in> set (subjects (loadSubjects sq lq vq st))"
    and "L \<in> set (lessons S)"
    and "id_lesson L \<notin> userAccess st"
  shows "requestStatus L =
         Some (case userRequests st (id_lesson L) of None \<Rightarrow> ''none'' | Some v \<Rightarrow> v)"
proof (cases "userRequests st (id_lesson L)")
  case None
  with loadSubjects_lesson [OF assms(1,3,4)] show ?thesis
    by (simp add: or_string_def)
next
  case (Some v)
  then have "v \<in> ran (userRequests st)"
    by (auto simp: ran_def)
  with assms(2) have "v \<noteq> []"
    by (auto simp: request_statuses_def)
  with Some loadSubjects_lesson [OF assms(1,3,4)] show ?thesis
    by (simp add: or_string_def)
qed

theorem request_status_equals_map_entry_witness:
  "truthy (user (a_page {} [''l1'' \<mapsto> ''pending''])) \<and>
   ran (userRequests (a_page {} [''l1'' \<mapsto> ''pending''])) \<subseteq> request_statuses \<and>
   hd (a_catalog [] (a_page {} [''l1'' \<mapsto> ''pending'']))
     \<in> set (a_catalog [] (a_page {} [''l1'' \<mapsto> ''pending''])) \<and>
   a_lesson False ''pending''
     \<in> set (lessons (hd (a_catalog [] (a_page {} [''l1'' \<mapsto> ''pending''])))) \<and>
   id_lesson (a_lesson False ''pending'') \<notin> userAccess (a_page {} [''l1'' \<mapsto> ''pending'']) \<and>
   requestStatus (a_lesson False ''pending'') = Some ''pending'' \<and>
   a_lesson False ''none'' \<in> set (lessons (hd (a_catalog [] (a_page {} Map.empty)))) \<and>
   requestStatus (a_lesson False ''none'') = Some ''none''"
proof -
  have u: "truthy (user (a_page {} [''l1'' \<mapsto> ''pending'']))"
    by (simp add: truthy_def)
  have r: "ran (userRequests (a_page {} [''l1'' \<mapsto> ''pending''])) \<subseteq> request_statuses"
    by (simp add: request_statuses_def)
  have s: "hd (a_catalog [] (a_page {} [''l1'' \<mapsto> ''pending'']))
             \<in> set (a_catalog [] (a_page {} [''l1'' \<mapsto> ''pending'']))"
    by (simp add: catalog_defs)
  have l: "a_lesson False ''pending''
             \<in> set (lessons (hd (a_catalog [] (a_page {} [''l1'' \<mapsto> ''pending'']))))"
    by (simp add: catalog_defs)
  have a: "id_lesson (a_lesson False ''pending'') \<notin> userAccess (a_page {} [''l1'' \<mapsto> ''pending''])"
    by simp
  have u': "truthy (user (a_page {} Map.empty))"
    by (simp add: truthy_def)
  have r': "ran (userRequests (a_page {} Map.empty)) \<subseteq> request_statuses"
    by simp
  have s': "hd (a_catalog [] (a_page {} Map.empty)) \<in> set (a_catalog [] (a_page {} Map.empty))"
    by (simp add: catalog_defs)
  have l': "a_lesson False ''none'' \<in> set (lessons (hd (a_catalog [] (a_page {} Map.empty))))"
    by (simp add: catalog_defs)
  have a': "id_lesson (a_lesson False ''none'') \<notin> userAccess (a_page {} Map.empty)"
    by simp
  from request_status_equals_map_entry [OF u r s l a]
    request_status_equals_map_entry [OF u' r' s' l' a'] u r s l a l'
  show ?thesis
    by simp
qed

section \<open>The order of the videos\<close>

lemma sort_videos_by_position: "sort_videos vs = sort_key position vs"
proof -
  have "or_number (Some n) 0 = n" for n
    by (simp add: or_number_def)
  then show ?thesis
    by (simp add: sort_videos_def)
qed

lemma sort_videos_sorted: "sorted (map position (sort_videos vs))"
  by (simp add: sort_videos_by_position)

lemma sort_videos_stable:
  "filter (\<lambda>v. position v = k) (sort_videos vs) = filter (\<lambda>v. position v = k) vs"
  by (simp add: sort_videos_by_position sort_key_stable)

text \<open>
  C3. Three videos of one lesson fetched with the positions 2, absent, 0 are assembled
  in the order second, first, third, with the positions 1, 2, 2: the position 0 of the
  third video is taken as absent and replaced by its index 2. The claim expects third,
  first, second.
\<close>

theorem video_order_zero_position:
  "map (\<lambda>v. (id_video v, position v))
     (concat (map videos (concat (map lessons
        (a_catalog [a_video_row ''first'' (Some 2), a_video_row ''second'' None,
                    a_video_row ''third'' (Some 0)] (a_page {} Map.empty))))))
   = [(''second'', 1), (''first'', 2), (''third'', 2)]"
  by (simp add: catalog_defs)

text \<open>
  The same happens on rows that arrive ordered by position, as the video query asks:
  of four videos with the positions 0, 0, 0, 1 the last one is put before the third.
\<close>

lemma video_order_zero_position_ordered_fetch:
  "map (\<lambda>v. (id_video v, position v))
     (concat (map videos (concat (map lessons
        (a_catalog [a_video_row ''a'' (Some 0), a_video_row ''b'' (Some 0),
                    a_video_row ''c'' (Some 0), a_video_row ''d'' (Some 1)]
           (a_page {} Map.empty))))))
   = [(''a'', 0), (''b'', 1), (''d'', 1), (''c'', 2)]"
  by (simp add: catalog_defs)

section \<open>Failed fetches of the access snapshot\<close>

lemma loadUserAccess_Rejected:
  "truthy (user st) \<Longrightarrow> userAccess (loadUserAccess Rejected st) = {}"
  by (simp add: loadUserAccess_def asked_def)

lemma loadUserRequests_Rejected:
  "truthy (user st) \<Longrightarrow> userRequests (loadUserRequests Rejected st) = Map.empty"
  by (simp add: loadUserRequests_def asked_def)

lemma loadUserAccess_error:
  "userAccess (loadUserAccess (Resolved d (Some e)) st) = userAccess st"
  by (simp add: loadUserAccess_def asked_def)

lemma loadUserRequests_error:
  "userRequests (loadUserRequests (Resolved d (Some e)) st) = userRequests st"
  by (simp add: loadUserRequests_def asked_def)

text \<open>
  C4. A fetch that resolves with an error leaves its half of the snapshot as it was:
  the access set still holds \<open>l1\<close> and the request map still holds \<open>pending\<close> for
  \<open>l1\<close>. Only a fetch that rejects empties its half.
\<close>

theorem failed_fetch_keeps_snapshot:
  "userAccess (loadUserAccess (Resolved None (Some ''network''))
                 (a_page {''l1''} [''l1'' \<mapsto> ''pending''])) = {''l1''} \<and>
   userRequests (loadUserRequests (Resolved None (Some ''network''))
                   (a_page {''l1''} [''l1'' \<mapsto> ''pending''])) = [''l1'' \<mapsto> ''pending''] \<and>
   userAccess (loadUserAccess Rejected (a_page {''l1''} [''l1'' \<mapsto> ''pending''])) = {} \<and>
   userRequests (loadUserRequests Rejected (a_page {''l1''} [''l1'' \<mapsto> ''pending''])) = Map.empty"
  by (simp add: loadUserAccess_def loadUserRequests_def asked_def truthy_def)

section \<open>The fallback catalog\<close>

text \<open>
  C5. When the subject query fails, by rejecting or by resolving with an error, the
  catalog is the built-in one: three subjects, each with an empty lesson list and the
  lesson count 0.
\<close>

theorem subject_failure_gives_fallback:
  assumes "truthy (user st)"
  shows "subjects (loadSubjects Rejected lq vq st) = getDefaultSubjects \<and>
         subjects (loadSubjects (Resolved d (Some e)) lq vq st) = getDefaultSubjects \<and>
         map id_subject getDefaultSubjects = [''sft'', ''et'', ''ict''] \<and>
         map lessons getDefaultSubjects = [[], [], []] \<and>
         map lessonCount getDefaultSubjects = [0, 0, 0]"
  using assms
  by (simp add: loadSubjects_def use_defaults_def asked_def Let_def getDefaultSubjects_def)

theorem subject_failure_gives_fallback_witness:
  "truthy (user (a_page {''l1''} Map.empty)) \<and>
   subjects (loadSubjects Rejected (Resolved (Some [a_lesson_row]) None) (Resolved None None)
               (a_page {''l1''} Map.empty)) = getDefaultSubjects \<and>
   subjects (loadSubjects (Resolved (Some [a_subject_row]) (Some ''network''))
               (Resolved (Some [a_lesson_row]) None) (Resolved None None)
               (a_page {''l1''} Map.empty)) = getDefaultSubjects \<and>
   length getDefaultSubjects = 3"
proof -
  have u: "truthy (user (a_page {''l1''} Map.empty))"
    by (simp add: truthy_def)
  from subject_failure_gives_fallback [OF u, of "Resolved (Some [a_lesson_row]) None"
      "Resolved None None" "Some [a_subject_row]" "''network''"] u
  show ?thesis
    by (simp add: getDefaultSubjects_def)
qed

section \<open>Submitting a request\<close>

text \<open>
  C6. A submission for the lesson \<open>X\<close> whose insert succeeds stores \<open>pending\<close> for
  \<open>X\<close> in the request map and changes no other entry. A submission whose insert
  resolves with an error, or rejects, leaves the request map and the catalog as they
  were.
\<close>

theorem submit_request_updates_only_on_success:
  assumes "truthy (user st)"
    and "requestingLesson st = Some X"
  shows "userRequests (submitLessonRequest message (Insert_resolved None) sq lq vq st)
           = (userRequests st)(id_lesson X \<mapsto> ''pending'') \<and>
         userRequests (submitLessonRequest message (Insert_resolved (Some e)) sq lq vq st)
           = userRequests st \<and>
         subjects (submitLessonRequest message (Insert_resolved (Some e)) sq lq vq st)
           = subjects st \<and>
         userRequests (submitLessonRequest message Insert_rejected sq lq vq st)
           = userRequests st \<and>
         subjects (submitLessonRequest message Insert_rejected sq lq vq st)
           = subjects st"
  using assms
  by (simp add: submitLessonRequest_def Let_def asked_def loadSubjects_keeps_snapshot)

theorem submit_request_updates_only_on_success_witness:
  "truthy (user ((a_page {} [''l1'' \<mapsto> ''rejected''])\<lparr>requestingLesson := Some (a_lesson False ''rejected'')\<rparr>)) \<and>
   userRequests (submitLessonRequest ''please'' (Insert_resolved None)
       (Resolved (Some [a_subject_row]) None) (Resolved (Some [a_lesson_row]) None) (Resolved None None)
       ((a_page {} [''l1'' \<mapsto> ''rejected''])\<lparr>requestingLesson := Some (a_lesson False ''rejected'')\<rparr>))
     ''l1'' = Some ''pending'' \<and>
   userRequests (submitLessonRequest ''please'' (Insert_resolved (Some ''denied''))
       (Resolved (Some [a_subject_row]) None) (Resolved (Some [a_lesson_row]) None) (Resolved None None)
       ((a_page {} [''l1'' \<mapsto> ''rejected''])\<lparr>requestingLesson := Some (a_lesson False ''rejected'')\<rparr>))
     ''l1'' = Some ''rejected'' \<and>
   userRequests (submitLessonRequest ''please'' Insert_rejected
       (Resolved (Some [a_subject_row]) None) (Resolved (Some [a_lesson_row]) None) (Resolved None None)
       ((a_page {} [''l1'' \<mapsto> ''rejected''])\<lparr>requestingLesson := Some (a_lesson False ''rejected'')\<rparr>))
     ''l1'' = Some ''rejected''"
proof -
  have u: "truthy (user ((a_page {} [''l1'' \<mapsto> ''rejected''])\<lparr>requestingLesson := Some (a_lesson False ''rejected'')\<rparr>))"
    by (simp add: truthy_def)
  have r: "requestingLesson ((a_page {} [''l1'' \<mapsto> ''rejected''])\<lparr>requestingLesson := Some (a_lesson False ''rejected'')\<rparr>)
             = Some (a_lesson False ''rejected'')"
    by simp
  from submit_request_updates_only_on_success [OF u r, of "''please''"
      "Resolved (Some [a_subject_row]) None" "Resolved (Some [a_lesson_row]) None"
      "Resolved None None" "''denied''"] u
  show ?thesis
    by simp
qed

section \<open>Opening the request form\<close>

lemma handleLessonClick_modal:
  "\<not> request_modal_rendered st \<Longrightarrow>
   request_modal_rendered (handleLessonClick L st) = requestable L"
  by (simp add: handleLessonClick_def handleRequestAccess_def request_modal_rendered_def)

text \<open>
  C7, as amended. With the request form closed, a click on the card of a lesson, or on
  its request button, opens the form exactly when \<open>hasAccess\<close> is not true and
  \<open>requestStatus\<close> is not \<open>pending\<close>, and the form is then for that lesson. So it opens
  for a locked lesson with the status \<open>none\<close> or \<open>rejected\<close>, and for a locked lesson
  with any other status than \<open>pending\<close>; it never opens for a pending or an unlocked
  lesson.
\<close>

theorem click_opens_request_form:
  assumes "\<not> request_modal_rendered st"
  shows "request_modal_rendered (lesson_card_onClick L st)
           = (hasAccess L \<noteq> Some True \<and> requestStatus L \<noteq> Some ''pending'') \<and>
         request_modal_rendered (request_button_onClick L st)
           = (hasAccess L \<noteq> Some True \<and> requestStatus L \<noteq> Some ''pending'') \<and>
         (if request_modal_rendered (lesson_card_onClick L st)
          then requestingLesson (lesson_card_onClick L st) = Some L
          else lesson_card_onClick L st = st)"
  using assms
  by (simp add: lesson_card_onClick_def request_button_onClick_def handleContainerClick_def
        handleLessonClick_def handleRequestAccess_def request_modal_rendered_def requestable_def)

theorem click_opens_request_form_witness:
  "\<not> request_modal_rendered (a_page {} Map.empty) \<and>
   request_modal_rendered (lesson_card_onClick (a_lesson False ''none'') (a_page {} Map.empty)) \<and>
   request_modal_rendered (lesson_card_onClick (a_lesson False ''rejected'') (a_page {} Map.empty)) \<and>
   \<not> request_modal_rendered (lesson_card_onClick (a_lesson False ''pending'') (a_page {} Map.empty)) \<and>
   \<not> request_modal_rendered (lesson_card_onClick (a_lesson True ''none'') (a_page {} Map.empty)) \<and>
   \<not> request_modal_rendered (request_button_onClick (a_lesson True ''approved'') (a_page {} Map.empty))"
proof -
  have c: "\<not> request_modal_rendered (a_page {} Map.empty)"
    by (simp add: request_modal_rendered_def)
  from click_opens_request_form [OF c, of "a_lesson False ''none''"]
    click_opens_request_form [OF c, of "a_lesson False ''rejected''"]
    click_opens_request_form [OF c, of "a_lesson False ''pending''"]
    click_opens_request_form [OF c, of "a_lesson True ''none''"]
    click_opens_request_form [OF c, of "a_lesson True ''approved''"] c
  show ?thesis
    by simp
qed

text \<open>
  C7, as stated, fails on a lesson that is outside the access set while the request map
  holds \<open>approved\<close> for it: the catalog shows it locked with the status \<open>approved\<close>,
  which is neither \<open>none\<close> nor \<open>rejected\<close>, and a click on it opens the form.
\<close>

theorem click_on_approved_locked_lesson_counterexample:
  "lessons (hd (a_catalog [] (a_page {} [''l1'' \<mapsto> ''approved'']))) = [a_lesson False ''approved''] \<and>
   \<not> request_modal_rendered (a_page {} [''l1'' \<mapsto> ''approved'']) \<and>
   request_modal_rendered
     (lesson_card_onClick (a_lesson False ''approved'') (a_page {} [''l1'' \<mapsto> ''approved''])) \<and>
   requestStatus (a_lesson False ''approved'') \<noteq> Some ''none'' \<and>
   requestStatus (a_lesson False ''approved'') \<noteq> Some ''rejected''"
  by (simp add: catalog_defs lesson_card_onClick_def handleContainerClick_def
        handleLessonClick_def handleRequestAccess_def request_modal_rendered_def requestable_def)

section \<open>The fetches of a trigger\<close>

lemma loadUserAccess_queries:
  "truthy (user st) \<Longrightarrow>
   queries (loadUserAccess q st) = queries st @ [''user_lesson_access''] \<and>
   user (loadUserAccess q st) = user st"
  by (simp add: loadUserAccess_def asked_def Let_def split: response.splits option.splits)

lemma loadUserRequests_queries:
  "truthy (user st) \<Longrightarrow>
   queries (loadUserRequests q st) = queries st @ [''lesson_requests''] \<and>
   user (loadUserRequests q st) = user st"
  by (simp add: loadUserRequests_def asked_def Let_def split: response.splits option.splits)

lemma initial_data_load_queries:
  "truthy (user st) \<Longrightarrow>
   queries (initial_data_load q1 q2 st) = queries st @ [''lesson_requests'', ''lesson_requests'']"
  by (simp add: initial_data_load_def loadUserRequests_queries)

text \<open>The other triggers fetch the access set once and the request map once.\<close>

lemma periodic_refresh_queries:
  "truthy (user st) \<Longrightarrow>
   queries (periodic_refresh False aq rq st) = queries st @ [''user_lesson_access'', ''lesson_requests'']"
  by (simp add: periodic_refresh_def loadUserRequests_queries loadUserAccess_queries)

lemma handleVisibilityChange_queries:
  "truthy (user st) \<Longrightarrow>
   queries (handleVisibilityChange False ''visible'' aq rq st)
     = queries st @ [''user_lesson_access'', ''lesson_requests'']"
  by (simp add: handleVisibilityChange_def loadUserRequests_queries loadUserAccess_queries)

lemma handleLessonAccessUpdate_queries:
  "truthy (user st) \<Longrightarrow> user st = Some u \<Longrightarrow>
   queries (handleLessonAccessUpdate u aq rq st)
     = queries st @ [''user_lesson_access'', ''lesson_requests'']"
  by (simp add: handleLessonAccessUpdate_def loadUserRequests_queries loadUserAccess_queries)

text \<open>
  C8. On the initial load for the user \<open>u1\<close> the request map is fetched twice and the
  access set is not fetched: the access set stays as it was, whatever the backend
  would have answered. The claim expects one fetch of each.
\<close>

theorem initial_load_fetches:
  "queries (initial_data_load (Resolved (Some []) None) (Resolved (Some []) None)
              (a_page {} Map.empty)) = [''lesson_requests'', ''lesson_requests''] \<and>
   count_list (queries (initial_data_load (Resolved (Some []) None) (Resolved (Some []) None)
              (a_page {} Map.empty))) ''user_lesson_access'' = 0 \<and>
   count_list (queries (initial_data_load (Resolved (Some []) None) (Resolved (Some []) None)
              (a_page {} Map.empty))) ''lesson_requests'' = 2"
  by (simp add: initial_data_load_def loadUserRequests_def asked_def truthy_def)

section \<open>Notifications\<close>

text \<open>
  C9. The click action on a notification that is already read does not call
  \<open>markNotificationRead\<close>: the notification collection is unchanged, and so is the
  number of unread notifications of any user.
\<close>

theorem click_on_read_notification_is_noop:
  assumes "readStatus n"
  shows "handleNotificationClick markNotificationRead n notifications = notifications \<and>
         length (unreadNotifications
                   (handleNotificationClick markNotificationRead n notifications) user_id)
           = length (unreadNotifications notifications user_id)"
  using assms by (simp add: handleNotificationClick_def)

theorem click_on_read_notification_is_noop_witness:
  "readStatus (a_notification ''n1'' ''reminder'' ''low'' True None) \<and>
   handleNotificationClick (\<lambda>ident. map (\<lambda>m. m\<lparr>readStatus := True\<rparr>))
       (a_notification ''n1'' ''reminder'' ''low'' True None)
       [a_notification ''n1'' ''reminder'' ''low'' True None,
        a_notification ''n2'' ''broadcast'' ''high'' False None]
     = [a_notification ''n1'' ''reminder'' ''low'' True None,
        a_notification ''n2'' ''broadcast'' ''high'' False None] \<and>
   length (unreadNotifications
       (handleNotificationClick (\<lambda>ident. map (\<lambda>m. m\<lparr>readStatus := True\<rparr>))
          (a_notification ''n1'' ''reminder'' ''low'' True None)
          [a_notification ''n1'' ''reminder'' ''low'' True None,
           a_notification ''n2'' ''broadcast'' ''high'' False None])
       (Some ''u1'')) = 1"
proof -
  have r: "readStatus (a_notification ''n1'' ''reminder'' ''low'' True None)"
    by simp
  from click_on_read_notification_is_noop [OF r,
      of "\<lambda>ident. map (\<lambda>m. m\<lparr>readStatus := True\<rparr>)"
         "[a_notification ''n1'' ''reminder'' ''low'' True None,
           a_notification ''n2'' ''broadcast'' ''high'' False None]" "Some ''u1''"] r
  show ?thesis
    by (simp add: unreadNotifications_def userNotifications_def)
qed

text \<open>
  C10. A broadcast notification whose \<open>data.icon\<close> is \<open>check-circle\<close> is shown green
  with the check-circle icon, whatever its priority. Any other notification is shown
  red when its priority is \<open>high\<close> and yellow when it is \<open>medium\<close>, whatever its type;
  the colour of the type is used for the remaining priorities.
\<close>

theorem notification_display_precedence:
  "(type_notification n = ''broadcast'' \<and> data_icon n = Some ''check-circle'' \<longrightarrow>
      getNotificationColorForData n = ''text-green-600 bg-green-100'' \<and>
      getNotificationIconForData n = faCheckCircle) \<and>
   (\<not> (type_notification n = ''broadcast'' \<and> data_icon n = Some ''check-circle'') \<longrightarrow>
      (priority n = ''high'' \<longrightarrow> getNotificationColorForData n = ''text-red-600 bg-red-100'') \<and>
      (priority n = ''medium'' \<longrightarrow> getNotificationColorForData n = ''text-yellow-600 bg-yellow-100'') \<and>
      (priority n \<noteq> ''high'' \<and> priority n \<noteq> ''medium'' \<and> type_notification n = ''broadcast'' \<longrightarrow>
         getNotificationColorForData n = ''text-blue-600 bg-blue-100'') \<and>
      getNotificationIconForData n = getNotificationIcon (type_notification n))"
  by (simp add: getNotificationColorForData_def getNotificationIconForData_def
        getNotificationColor_def)

theorem notification_display_precedence_witness:
  "getNotificationColorForData
     (a_notification ''n1'' ''broadcast'' ''high'' False (Some \<lparr>icon_data = Some ''check-circle''\<rparr>))
     = ''text-green-600 bg-green-100'' \<and>
   getNotificationIconForData
     (a_notification ''n1'' ''broadcast'' ''high'' False (Some \<lparr>icon_data = Some ''check-circle''\<rparr>))
     = faCheckCircle \<and>
   getNotificationColorForData
     (a_notification ''n2'' ''broadcast'' ''medium'' False (Some \<lparr>icon_data = Some ''check-circle''\<rparr>))
     = ''text-green-600 bg-green-100'' \<and>
   getNotificationColorForData (a_notification ''n3'' ''broadcast'' ''high'' False None)
     = ''text-red-600 bg-red-100'' \<and>
   getNotificationColorForData (a_notification ''n4'' ''quiz_result'' ''medium'' False None)
     = ''text-yellow-600 bg-yellow-100'' \<and>
   getNotificationColorForData
     (a_notification ''n5'' ''broadcast'' ''low'' False (Some \<lparr>icon_data = Some ''bell''\<rparr>))
     = ''text-blue-600 bg-blue-100'' \<and>
   getNotificationIconForData (a_notification ''n3'' ''broadcast'' ''high'' False None) = faInfoCircle"
  using
    notification_display_precedence
      [of "a_notification ''n1'' ''broadcast'' ''high'' False (Some \<lparr>icon_data = Some ''check-circle''\<rparr>)"]
    notification_display_precedence
      [of "a_notification ''n2'' ''broadcast'' ''medium'' False (Some \<lparr>icon_data = Some ''check-circle''\<rparr>)"]
    notification_display_precedence [of "a_notification ''n3'' ''broadcast'' ''high'' False None"]
    notification_display_precedence [of "a_notification ''n4'' ''quiz_result'' ''medium'' False None"]
    notification_display_precedence
      [of "a_notification ''n5'' ''broadcast'' ''low'' False (Some \<lparr>icon_data = Some ''bell''\<rparr>)"]
  by (simp add: data_icon_def getNotificationIcon_def)


end
